theory Spec2Isabelle
  imports Complex_Main
begin

section \<open>JavaScript values\<close>

text \<open>
  The values that travel through \<^verbatim>\<open>src/index.js\<close> come from parsed JSON (the panel's
  replies) and parsed YAML (\<^verbatim>\<open>config.yaml\<close>). The program never computes with a number: it
  copies numbers, tests them for truthiness and compares them with \<^verbatim>\<open>===\<close>, so a
  number is a rational here and \<open>JNaN\<close> stands for the one number that differs from itself.
  An object is its list of (key, value) pairs in insertion order.
\<close>

datatype jsval =
    JUndefined
  | JNull
  | JBool bool
  | JNaN
  | JNum rat
  | JStr string
  | JArr "jsval list"
  | JObj "(string \<times> jsval) list"

type_synonym jsobj = "(string \<times> jsval) list"

text \<open>\<^verbatim>\<open>if (v)\<close> and \<^verbatim>\<open>!v\<close>: the falsy values are undefined, null, false, NaN, 0 and "".\<close>

fun truthy :: "jsval \<Rightarrow> bool" where
  "truthy JUndefined = False"
| "truthy JNull = False"
| "truthy (JBool b) = b"
| "truthy JNaN = False"
| "truthy (JNum q) = (q \<noteq> 0)"
| "truthy (JStr s) = (s \<noteq> [])"
| "truthy (JArr xs) = True"
| "truthy (JObj ps) = True"

text \<open>
  \<^verbatim>\<open>a === b\<close>. Arrays and objects are equal only when they are the same reference; the two
  sides of every \<^verbatim>\<open>===\<close> of the program come from different documents (the panel's reply
  and the config file, or a literal), so two arrays or two objects are never the same one.
\<close>

fun strict_eq :: "jsval \<Rightarrow> jsval \<Rightarrow> bool" where
  "strict_eq JUndefined JUndefined = True"
| "strict_eq JNull JNull = True"
| "strict_eq (JBool a) (JBool b) = (a = b)"
| "strict_eq (JNum a) (JNum b) = (a = b)"
| "strict_eq (JStr a) (JStr b) = (a = b)"
| "strict_eq _ _ = False"

text \<open>\<^verbatim>\<open>obj.key\<close> on an object: the value stored under the key, undefined when there is none.\<close>

definition field :: "jsobj \<Rightarrow> string \<Rightarrow> jsval" where
  "field obj k = (case map_of obj k of None \<Rightarrow> JUndefined | Some v \<Rightarrow> v)"

text \<open>
  \<^verbatim>\<open>{ ...obj, key: v }\<close> and \<^verbatim>\<open>obj.key = v\<close>: a key that is present keeps its place and
  takes the new value, a new key goes to the end.
\<close>

fun set_field :: "string \<Rightarrow> jsval \<Rightarrow> jsobj \<Rightarrow> jsobj" where
  "set_field k v [] = [(k, v)]"
| "set_field k v (p # ps) = (if fst p = k then (k, v) # ps else p # set_field k v ps)"

section \<open>Time of day\<close>

text \<open>
  A moment is an instant, in milliseconds since 1970-01-01T00:00:00Z, as the moment library
  counts it; \<open>None\<close> is the invalid moment that the library returns for a string it cannot
  parse. The library's comparisons are false as soon as one side is invalid.
\<close>

type_synonym moment = "int option"

fun isAfter :: "moment \<Rightarrow> moment \<Rightarrow> bool" where
  "isAfter (Some a) (Some b) = (b < a)"
| "isAfter _ _ = False"

fun isSameOrAfter :: "moment \<Rightarrow> moment \<Rightarrow> bool" where
  "isSameOrAfter (Some a) (Some b) = (b \<le> a)"
| "isSameOrAfter _ _ = False"

fun isSameOrBefore :: "moment \<Rightarrow> moment \<Rightarrow> bool" where
  "isSameOrBefore (Some a) (Some b) = (a \<le> b)"
| "isSameOrBefore _ _ = False"

text \<open>
  \<^verbatim>\<open>isTimeBetween(startTimeStr, endTimeStr)\<close>, lines 20-34. The library call
  \<^verbatim>\<open>tz(str, "HH:mm:ss", SHANGHAI_TZ)\<close> of lines 22 and 23 is the parameter \<open>parse\<close> (the
  library's behaviour is \<open>tz_parse\<close> below); \<open>currentTime\<close> is what \<^verbatim>\<open>tz(SHANGHAI_TZ)\<close> reads
  from the clock on line 21, which is always a valid moment.
\<close>

definition isTimeBetween :: "(string \<Rightarrow> moment) \<Rightarrow> int \<Rightarrow> string \<Rightarrow> string \<Rightarrow> bool" where
  "isTimeBetween parse currentTime startTimeStr endTimeStr =
     (let startTime = parse startTimeStr;
          endTime = parse endTimeStr
      in if isAfter startTime endTime
         then isSameOrAfter (Some currentTime) startTime \<or> isSameOrBefore (Some currentTime) endTime
         else isSameOrAfter (Some currentTime) startTime \<and> isSameOrBefore (Some currentTime) endTime)"

subsection \<open>The library's parser\<close>

text \<open>
  What \<^verbatim>\<open>tz(str, "HH:mm:ss", "Asia/Shanghai")\<close> of moment-timezone returns. The library is
  not part of the repository; this is its behaviour (moment 2.x, moment-timezone 0.5.x), in
  two steps.

  First the string is read against the format, not strictly: each of the tokens
  \<^verbatim>\<open>HH\<close>, \<^verbatim>\<open>mm\<close>, \<^verbatim>\<open>ss\<close> takes the first run of one or two decimal digits it finds in what is
  left of the string, each \<^verbatim>\<open>:\<close> of the format takes the first colon it finds, and what is
  skipped or left over is ignored. A token that finds no digit counts as 0. The result is
  invalid when no token found a digit, or when a field is out of range; 24:00:00 is in range.
\<close>

definition digit_of :: "char \<Rightarrow> nat option" where
  "digit_of c = map_of [(CHR ''0'', 0), (CHR ''1'', 1), (CHR ''2'', 2), (CHR ''3'', 3), (CHR ''4'', 4),
                        (CHR ''5'', 5), (CHR ''6'', 6), (CHR ''7'', 7), (CHR ''8'', 8), (CHR ''9'', 9)] c"

text \<open>A token \<^verbatim>\<open>HH\<close>, \<^verbatim>\<open>mm\<close> or \<^verbatim>\<open>ss\<close>: its value, if any, and the rest of the string.\<close>

definition read_number :: "string \<Rightarrow> nat option \<times> string" where
  "read_number input =
     (case dropWhile (\<lambda>c. digit_of c = None) input of
        [] \<Rightarrow> (None, input)
      | d1 # rest \<Rightarrow>
          (case digit_of d1 of
             None \<Rightarrow> (None, input)
           | Some x \<Rightarrow>
               (case rest of
                  [] \<Rightarrow> (Some x, rest)
                | d2 # rest2 \<Rightarrow>
                    (case digit_of d2 of
                       None \<Rightarrow> (Some x, rest)
                     | Some y \<Rightarrow> (Some (10 * x + y), rest2)))))"

text \<open>A literal character of the format: the rest of the string after its first occurrence.\<close>

definition skip_literal :: "char \<Rightarrow> string \<Rightarrow> string" where
  "skip_literal c input =
     (case dropWhile (\<lambda>x. x \<noteq> c) input of [] \<Rightarrow> input | x # rest \<Rightarrow> rest)"

text \<open>The time of day that a string denotes, in milliseconds since the start of the day.\<close>

definition timeOfDay :: "string \<Rightarrow> int option" where
  "timeOfDay input =
     (case read_number input of (hh, s1) \<Rightarrow>
      case read_number (skip_literal CHR '':'' s1) of (mm, s2) \<Rightarrow>
      case read_number (skip_literal CHR '':'' s2) of (ss, s3) \<Rightarrow>
        if hh = None \<and> mm = None \<and> ss = None then None
        else
          let h = (case hh of None \<Rightarrow> 0 | Some n \<Rightarrow> n);
              m = (case mm of None \<Rightarrow> 0 | Some n \<Rightarrow> n);
              s = (case ss of None \<Rightarrow> 0 | Some n \<Rightarrow> n)
          in if 24 < h \<or> (h = 24 \<and> (0 < m \<or> 0 < s)) \<or> 59 < m \<or> 59 < s then None
             else Some (int (((h * 60 + m) * 60 + s) * 1000)))"

text \<open>
  Then the day. The library parses in UTC, so the date it gives to a time of day is the
  current date in UTC; it then reads that date and time as a wall-clock time in the zone,
  which is eight hours ahead of UTC. \<open>today\<close> is what the clock reads when the string is
  parsed. Between 00:00 and 08:00 in Shanghai the date in UTC is the day before.
\<close>

definition utc_day_start :: "int \<Rightarrow> int" where
  "utc_day_start t = t - t mod 86400000"

definition tz_parse :: "int \<Rightarrow> string \<Rightarrow> moment" where
  "tz_parse today input =
     (case timeOfDay input of
        None \<Rightarrow> None
      | Some ms \<Rightarrow> Some (utc_day_start today + ms - 28800000))"

text \<open>The time of day in Shanghai at an instant, in milliseconds since midnight.\<close>

definition shanghai_time :: "int \<Rightarrow> int" where
  "shanghai_time t = (t + 28800000) mod 86400000"

section \<open>Configuration, environment and state\<close>

text \<open>
  The rules of \<^verbatim>\<open>config.yaml\<close>: a node rule has an id, a type and its rate windows in the
  order they are declared (\<^verbatim>\<open>rate_config\<close>); a window has two times of day as strings and
  a rate.
\<close>

record rateConfig =
  start_time :: string
  end_time :: string
  rate :: jsval

record configNode =
  node_id :: jsval
  node_type :: jsval
  rate_config :: "rateConfig list"

text \<open>
  The five keys that \<open>loadConfig\<close> requires. \<open>nodes\<close> is \<open>None\<close> when the key is absent
  and \<open>Some\<close> of the rules when it is a sequence (an empty sequence is truthy in JavaScript).
\<close>

record config =
  host :: jsval
  admin_path :: jsval
  admin_account :: jsval
  admin_password :: jsval
  nodes :: "configNode list option"

text \<open>Every \<^verbatim>\<open>throw\<close> of the program and every exception a collaborator raises.\<close>

datatype error =
    IOError string
  | MissingKey string
  | TypeError
  | AxiosError string
  | NotAdmin
  | Unauthorized
  | MissingType jsval

datatype level = INFO | ERROR

text \<open>The lines the program logs; the wording of a line is not modelled, its arguments are.\<close>

datatype message =
    LoginOk
  | LoginFailed error
  | NodesOk
  | NodesFailed error
  | SaveOk jsval jsval jsval
  | SaveFailed jsval jsval error
  | NothingToUpdate
  | ChangeRateFailed error
  | LoadConfigFailed error
  | ScriptFailed error

text \<open>
  The network calls: the login with the account and the password, the node list with the
  authorization header, a save with the authorization header and the posted data.
\<close>

datatype request =
    Login jsval jsval
  | GetNodes jsval
  | Save jsval jsobj

text \<open>
  What the program reads from outside. \<open>clock e n\<close> is the moment that the \<open>n\<close>-th
  reading of the clock returns; \<open>tzParse\<close> is the library's parser of \<^verbatim>\<open>HH:mm:ss\<close>;
  \<open>config_file\<close> is the parsed configuration, or the error that reading or parsing it
  throws; \<open>login_reply\<close> is the body of the panel's reply to the login (\<^verbatim>\<open>response.data\<close>)
  and \<open>nodes_reply\<close> the node list of its reply to getNodes (\<^verbatim>\<open>response.data.data\<close>, a
  JSON array of objects), or the error the call throws; \<open>save_reply e n\<close> is the error with
  which the save fails when it is the \<open>n\<close>-th request of the run, \<open>None\<close> when it succeeds.
\<close>

record env =
  clock :: "nat \<Rightarrow> int"
  tzParse :: "string \<Rightarrow> moment"
  config_file :: "error + config"
  login_reply :: "error + jsval"
  nodes_reply :: "error + jsobj list"
  save_reply :: "nat \<Rightarrow> error option"

text \<open>
  What the program changes: the number of clock readings so far, the console (each line
  with the time it was stamped with), the requests sent, and the two mutable fields of the
  client, \<^verbatim>\<open>this.authData\<close> and \<^verbatim>\<open>this.headers.authorization\<close>.
\<close>

record state =
  ticks :: nat
  console :: "(int \<times> level \<times> message) list"
  sent :: "request list"
  authData :: jsval
  authorization :: jsval

text \<open>The state after the constructor of \<open>XBClient\<close>, lines 40-65.\<close>

definition init_state :: state where
  "init_state = \<lparr>ticks = 0, console = [], sent = [], authData = JNull, authorization = JStr []\<rparr>"

text \<open>\<^verbatim>\<open>log(message, level)\<close>, lines 11-14: reads the clock once and prints one line.\<close>

definition log_line :: "env \<Rightarrow> level \<Rightarrow> message \<Rightarrow> state \<Rightarrow> state" where
  "log_line e lv m s =
     s\<lparr>ticks := Suc (ticks s), console := console s @ [(clock e (ticks s), lv, m)]\<rparr>"

section \<open>Reconciliation: the nested loop of changeRate\<close>

text \<open>
  Lines 195-200, the loop over the windows of a rule for one matched node. The loop state is
  the number of clock readings and \<open>updateNodesData\<close>; each call of \<open>isTimeBetween\<close> reads
  the clock once.
\<close>

fun rate_loop :: "env \<Rightarrow> jsobj \<Rightarrow> rateConfig list \<Rightarrow> nat \<times> jsobj list \<Rightarrow> nat \<times> jsobj list" where
  "rate_loop e existNode [] st = st"
| "rate_loop e existNode (rateConfig # rest) (t, updateNodesData) =
     rate_loop e existNode rest
       (Suc t,
        if isTimeBetween (tzParse e) (clock e t) (start_time rateConfig) (end_time rateConfig)
        then updateNodesData @ [set_field ''rate'' (rate rateConfig) existNode]
        else updateNodesData)"

text \<open>Lines 190-202, the loop over the panel's nodes for one rule.\<close>

fun exist_loop :: "env \<Rightarrow> configNode \<Rightarrow> jsobj list \<Rightarrow> nat \<times> jsobj list \<Rightarrow> nat \<times> jsobj list" where
  "exist_loop e configNode [] st = st"
| "exist_loop e configNode (existNode # rest) st =
     exist_loop e configNode rest
       (if strict_eq (field existNode ''id'') (node_id configNode)
           \<and> strict_eq (field existNode ''type'') (node_type configNode)
        then rate_loop e existNode (rate_config configNode) st
        else st)"

text \<open>Lines 189-203, the loop over the rules.\<close>

fun config_loop :: "env \<Rightarrow> jsobj list \<Rightarrow> configNode list \<Rightarrow> nat \<times> jsobj list \<Rightarrow> nat \<times> jsobj list" where
  "config_loop e existNodes [] st = st"
| "config_loop e existNodes (configNode # rest) st =
     config_loop e existNodes rest (exist_loop e configNode existNodes st)"

text \<open>Lines 188-203: \<open>updateNodesData\<close> starts empty; \<open>t\<close> clock readings came before.\<close>

definition reconcile :: "env \<Rightarrow> configNode list \<Rightarrow> jsobj list \<Rightarrow> nat \<Rightarrow> jsobj list" where
  "reconcile e configNodes existNodes t = snd (config_loop e existNodes configNodes (t, []))"




section \<open>The client\<close>

text \<open>
  Reading a property of a value that need not be an object: undefined and null throw a
  TypeError; a string, number, boolean or array has none of the keys the program reads this
  way (\<^verbatim>\<open>data\<close>, \<^verbatim>\<open>is_admin\<close>, \<^verbatim>\<open>auth_data\<close>).
\<close>

fun get_prop :: "jsval \<Rightarrow> string \<Rightarrow> error + jsval" where
  "get_prop JUndefined k = Inl TypeError"
| "get_prop JNull k = Inl TypeError"
| "get_prop (JObj ps) k = Inr (field ps k)"
| "get_prop v k = Inr JUndefined"

text \<open>Lines 78-82, on the body of the reply: the token to store, or what is thrown.\<close>

definition login_check :: "jsval \<Rightarrow> error + jsval" where
  "login_check body =
     (case get_prop body ''data'' of
        Inl err \<Rightarrow> Inl err
      | Inr auth \<Rightarrow>
          (case get_prop auth ''is_admin'' of
             Inl err \<Rightarrow> Inl err
           | Inr is_admin \<Rightarrow>
               if \<not> strict_eq is_admin (JNum 1) then Inl NotAdmin
               else get_prop auth ''auth_data''))"

text \<open>What lines 77-82 yield: the token of a reply that passes, or what is thrown.\<close>

definition login_outcome :: "env \<Rightarrow> error + jsval" where
  "login_outcome e = (case login_reply e of Inl err \<Rightarrow> Inl err | Inr body \<Rightarrow> login_check body)"

text \<open>\<open>login\<close>, lines 70-88: one request; a failure is logged and thrown again.\<close>

definition login :: "env \<Rightarrow> config \<Rightarrow> state \<Rightarrow> (error + unit) \<times> state" where
  "login e cfg s =
     (let s1 = s\<lparr>sent := sent s @ [Login (admin_account cfg) (admin_password cfg)]\<rparr>
      in case login_outcome e of
           Inl err \<Rightarrow> (Inl err, log_line e ERROR (LoginFailed err) s1)
         | Inr token \<Rightarrow> (Inr (), log_line e INFO LoginOk (s1\<lparr>authData := token\<rparr>)))"

text \<open>\<open>getNodes\<close>, lines 93-110.\<close>

definition getNodes :: "env \<Rightarrow> state \<Rightarrow> (error + jsobj list) \<times> state" where
  "getNodes e s =
     (if \<not> truthy (authData s) then (Inl Unauthorized, s)
      else
        let s1 = s\<lparr>authorization := authData s\<rparr>;
            s2 = s1\<lparr>sent := sent s1 @ [GetNodes (authorization s1)]\<rparr>
        in case nodes_reply e of
             Inl err \<Rightarrow> (Inl err, log_line e ERROR (NodesFailed err) s2)
           | Inr existNodes \<Rightarrow> (Inr existNodes, log_line e INFO NodesOk s2))"

text \<open>The index of a template string, in decimal.\<close>

fun show_nat :: "nat \<Rightarrow> string" where
  "show_nat n =
     (if n < 10 then [''0123456789'' ! n]
      else show_nat (n div 10) @ [''0123456789'' ! (n mod 10)])"

declare show_nat.simps [simp del]

text \<open>Lines 123-126: \<^verbatim>\<open>group_id.map((id, index) => [`group_id[${index}]`, id])\<close>.\<close>

definition group_pairs :: "jsval list \<Rightarrow> jsval list" where
  "group_pairs ids =
     map (\<lambda>(index, id). JArr [JStr (''group_id['' @ show_nat index @ '']''), id]) (enumerate 0 ids)"

text \<open>
  Lines 121-127: the posted data of a record. A truthy \<^verbatim>\<open>group_id\<close> that is not an array
  has no \<^verbatim>\<open>map\<close> method, and calling it throws a TypeError.
\<close>

definition postData_of :: "jsobj \<Rightarrow> error + jsobj" where
  "postData_of nodeData =
     (let postData = nodeData
      in if truthy (field nodeData ''group_id'')
         then (case field nodeData ''group_id'' of
                 JArr ids \<Rightarrow> Inr (set_field ''group_id'' (JArr (group_pairs ids)) postData)
               | _ \<Rightarrow> Inl TypeError)
         else Inr postData)"

text \<open>
  The loop of \<open>batchChange\<close>, lines 120-138. The \<^verbatim>\<open>throw\<close> of line 129 is outside the
  \<^verbatim>\<open>try\<close> of lines 132-137, so it leaves the loop; a failing save is caught and logged.
\<close>

fun save_loop :: "env \<Rightarrow> jsobj list \<Rightarrow> state \<Rightarrow> (error + unit) \<times> state" where
  "save_loop e [] s = (Inr (), s)"
| "save_loop e (nodeData # rest) s =
     (case postData_of nodeData of
        Inl err \<Rightarrow> (Inl err, s)
      | Inr postData \<Rightarrow>
          if \<not> truthy (field postData ''type'')
          then (Inl (MissingType (field postData ''id'')), s)
          else
            let s1 = s\<lparr>sent := sent s @ [Save (authorization s) postData]\<rparr>
            in case save_reply e (length (sent s)) of
                 None \<Rightarrow>
                   save_loop e rest
                     (log_line e INFO
                        (SaveOk (field postData ''type'') (field postData ''id'') (field postData ''rate'')) s1)
               | Some err \<Rightarrow>
                   save_loop e rest
                     (log_line e ERROR
                        (SaveFailed (field postData ''type'') (field postData ''id'') err) s1))"

text \<open>\<open>batchChange\<close>, lines 115-139.\<close>

definition batchChange :: "env \<Rightarrow> jsobj list \<Rightarrow> state \<Rightarrow> (error + unit) \<times> state" where
  "batchChange e updateNodesData s =
     (if \<not> truthy (authData s) then (Inl Unauthorized, s)
      else save_loop e updateNodesData (s\<lparr>authorization := authData s\<rparr>))"

text \<open>
  The posted data as the specification words it: a \<^verbatim>\<open>group_id\<close> collection becomes the
  indexed list of pairs, a record without one is posted as it is.
\<close>

definition indexed_pairs :: "jsval list \<Rightarrow> jsval list" where
  "indexed_pairs gs =
     map (\<lambda>j. JArr [JStr (''group_id['' @ show_nat j @ '']''), gs ! j]) [0..<length gs]"

definition encoded :: "jsobj \<Rightarrow> jsobj" where
  "encoded r =
     (case field r ''group_id'' of
        JArr gs \<Rightarrow> set_field ''group_id'' (JArr (indexed_pairs gs)) r
      | _ \<Rightarrow> r)"

text \<open>A record whose \<^verbatim>\<open>group_id\<close> is a collection or is missing (absent, or a falsy value).\<close>

definition group_ok :: "jsobj \<Rightarrow> bool" where
  "group_ok r = (case field r ''group_id'' of JArr gs \<Rightarrow> True | v \<Rightarrow> \<not> truthy v)"

text \<open>A record that the loop of \<open>batchChange\<close> can send: it also has a non-empty type.\<close>

definition sendable :: "jsobj \<Rightarrow> bool" where
  "sendable r = (group_ok r \<and> truthy (field r ''type''))"

text \<open>The line logged for posted data whose save was the \<open>i\<close>-th request of the run.\<close>

definition save_line :: "env \<Rightarrow> nat \<Rightarrow> jsobj \<Rightarrow> level \<times> message" where
  "save_line e i d =
     (case save_reply e i of
        None \<Rightarrow> (INFO, SaveOk (field d ''type'') (field d ''id'') (field d ''rate''))
      | Some err \<Rightarrow> (ERROR, SaveFailed (field d ''type'') (field d ''id'') err))"

section \<open>The run\<close>

definition requiredKeys :: "string list" where
  "requiredKeys = [''host'', ''admin_path'', ''admin_account'', ''admin_password'', ''nodes'']"

text \<open>The truthiness of \<^verbatim>\<open>config[key]\<close>.\<close>

definition config_key :: "config \<Rightarrow> string \<Rightarrow> bool" where
  "config_key cfg key =
     (if key = ''host'' then truthy (host cfg)
      else if key = ''admin_path'' then truthy (admin_path cfg)
      else if key = ''admin_account'' then truthy (admin_account cfg)
      else if key = ''admin_password'' then truthy (admin_password cfg)
      else if key = ''nodes'' then nodes cfg \<noteq> None
      else False)"

text \<open>Lines 169-173: the first required key that is missing is the error.\<close>

fun check_keys :: "config \<Rightarrow> string list \<Rightarrow> error option" where
  "check_keys cfg [] = None"
| "check_keys cfg (key # rest) =
     (if \<not> config_key cfg key then Some (MissingKey key) else check_keys cfg rest)"

text \<open>\<open>loadConfig\<close>, lines 159-179: a failure is logged and thrown again.\<close>

definition loadConfig :: "env \<Rightarrow> state \<Rightarrow> (error + config) \<times> state" where
  "loadConfig e s =
     (case (case config_file e of
              Inl err \<Rightarrow> Inl err
            | Inr cfg \<Rightarrow> (case check_keys cfg requiredKeys of Some err \<Rightarrow> Inl err | None \<Rightarrow> Inr cfg)) of
        Inl err \<Rightarrow> (Inl err, log_line e ERROR (LoadConfigFailed err) s)
      | Inr cfg \<Rightarrow> (Inr cfg, s))"

text \<open>The \<^verbatim>\<open>try\<close> block of \<open>changeRate\<close>, lines 186-208.\<close>

definition changeRate_try :: "env \<Rightarrow> config \<Rightarrow> state \<Rightarrow> (error + unit) \<times> state" where
  "changeRate_try e cfg s =
     (case login e cfg s of
        (Inl err, s1) \<Rightarrow> (Inl err, s1)
      | (Inr u, s1) \<Rightarrow>
          (case getNodes e s1 of
             (Inl err, s2) \<Rightarrow> (Inl err, s2)
           | (Inr existNodes, s2) \<Rightarrow>
               (case nodes cfg of
                  None \<Rightarrow> (Inl TypeError, s2)
                | Some configNodes \<Rightarrow>
                    (case config_loop e existNodes configNodes (ticks s2, []) of
                       (t, updateNodesData) \<Rightarrow>
                         if length updateNodesData > 0
                         then batchChange e updateNodesData (s2\<lparr>ticks := t\<rparr>)
                         else (Inr (), log_line e INFO NothingToUpdate (s2\<lparr>ticks := t\<rparr>))))))"

text \<open>\<open>changeRate\<close>, lines 184-212: the \<^verbatim>\<open>catch\<close> logs the error and does not throw it again.\<close>

definition changeRate :: "env \<Rightarrow> config \<Rightarrow> state \<Rightarrow> (error + unit) \<times> state" where
  "changeRate e cfg s =
     (case changeRate_try e cfg s of
        (Inl err, s1) \<Rightarrow> (Inr (), log_line e ERROR (ChangeRateFailed err) s1)
      | (Inr u, s1) \<Rightarrow> (Inr u, s1))"

text \<open>
  The entry point, lines 216-223: the constructor of \<open>DynamicRate\<close> loads the configuration,
  then \<open>changeRate\<close> runs; the \<^verbatim>\<open>catch\<close> logs the error and does not throw it again. The
  result is how the top-level promise settles: \<open>Inr\<close> fulfilled, \<open>Inl\<close> rejected.
\<close>

definition main :: "env \<Rightarrow> (error + unit) \<times> state" where
  "main e =
     (case (case loadConfig e init_state of
              (Inl err, s1) \<Rightarrow> (Inl err, s1)
            | (Inr cfg, s1) \<Rightarrow> changeRate e cfg s1) of
        (Inl err, s2) \<Rightarrow> (Inr (), log_line e ERROR (ScriptFailed err) s2)
      | (Inr u, s2) \<Rightarrow> (Inr u, s2))"

text \<open>
  The exit status of the process: the program never calls \<^verbatim>\<open>process.exit\<close> and never sets
  \<^verbatim>\<open>process.exitCode\<close>, so the status is 0 unless the top-level promise is rejected, which
  the runtime turns into status 1.
\<close>

definition exit_code :: "(error + unit) \<times> state \<Rightarrow> nat" where
  "exit_code r = (case fst r of Inl err \<Rightarrow> 1 | Inr u \<Rightarrow> 0)"

text \<open>The save requests among the requests sent.\<close>

fun is_save :: "request \<Rightarrow> bool" where
  "is_save (Save a d) = True"
| "is_save r = False"

text \<open>The login requests among the requests sent.\<close>

fun is_login :: "request \<Rightarrow> bool" where
  "is_login (Login a p) = True"
| "is_login r = False"

section \<open>A concrete run\<close>

text \<open>
  The scenario of the specification: one rule for node 1 of type vmess with a day window
  at rate 1 and a night window at rate 2, a panel that lists that node at rate 0.5 among
  its other fields, and a clock that reads 20:00:00 in Shanghai. The instants are those of
  1 January 2024 in Shanghai: 20:00:00 is 12:00:00 UTC of that day, and 03:00:00 and
  05:00:00 are 19:00:00 and 21:00:00 UTC of the day before.
\<close>

definition at_20_00 :: int where
  "at_20_00 = 1704110400000"

definition at_03_00 :: int where
  "at_03_00 = 1704049200000"

definition at_05_00 :: int where
  "at_05_00 = 1704056400000"

definition scenario_rule :: configNode where
  "scenario_rule =
     \<lparr>node_id = JNum 1, node_type = JStr ''vmess'',
      rate_config =
        [\<lparr>start_time = ''09:00:00'', end_time = ''18:00:00'', rate = JNum 1\<rparr>,
         \<lparr>start_time = ''18:00:00'', end_time = ''09:00:00'', rate = JNum 2\<rparr>]\<rparr>"

definition scenario_node :: jsobj where
  "scenario_node =
     [(''id'', JNum 1), (''type'', JStr ''vmess''), (''name'', JStr ''hk-01''),
      (''rate'', JNum (1 / 2)), (''group_id'', JArr [JNum 3, JNum 5]), (''port'', JNum 443)]"

definition other_node :: jsobj where
  "other_node = [(''id'', JNum 1), (''type'', JStr ''trojan''), (''rate'', JNum 1)]"

definition typeless_node :: jsobj where
  "typeless_node = [(''id'', JNum 2), (''rate'', JNum 3)]"

text \<open>Two records whose \<^verbatim>\<open>group_id\<close> is a string, one with a type and one without.\<close>

definition scalar_group_node :: jsobj where
  "scalar_group_node = [(''id'', JNum 4), (''type'', JStr ''vmess''), (''group_id'', JStr ''3,5'')]"

definition typeless_scalar_node :: jsobj where
  "typeless_scalar_node = [(''id'', JNum 5), (''group_id'', JStr ''3,5'')]"

definition scenario_config :: config where
  "scenario_config =
     \<lparr>host = JStr ''panel.example.com'', admin_path = JStr ''admin'',
      admin_account = JStr ''root@example.com'', admin_password = JStr ''secret'',
      nodes = Some [scenario_rule]\<rparr>"

definition scenario_env :: env where
  "scenario_env =
     \<lparr>clock = (\<lambda>n. at_20_00), tzParse = tz_parse at_20_00,
      config_file = Inr scenario_config,
      login_reply = Inr (JObj [(''data'', JObj [(''is_admin'', JNum 1), (''auth_data'', JStr ''token'')])]),
      nodes_reply = Inr [scenario_node, other_node],
      save_reply = (\<lambda>n. None)\<rparr>"

text \<open>A state after a successful login, and a panel whose first save fails.\<close>

definition logged_in :: state where
  "logged_in = init_state\<lparr>authData := JStr ''token''\<rparr>"

definition flaky_env :: env where
  "flaky_env = scenario_env\<lparr>save_reply := (\<lambda>n. if n = 0 then Some (AxiosError ''timeout'') else None)\<rparr>"

text \<open>A panel that does not answer the login.\<close>

definition login_down_env :: env where
  "login_down_env = scenario_env\<lparr>login_reply := Inl (AxiosError ''timeout'')\<rparr>"

text \<open>A run without a readable configuration file, and a panel that does not list its nodes.\<close>

definition no_config_env :: env where
  "no_config_env = scenario_env\<lparr>config_file := Inl (IOError ''ENOENT'')\<rparr>"

definition nodes_down_env :: env where
  "nodes_down_env = scenario_env\<lparr>nodes_reply := Inl (AxiosError ''timeout'')\<rparr>"

section \<open>Reconciliation is the list of active windows of matched nodes\<close>

lemma timeOfDay_examples:
  "timeOfDay ''09:00:00'' = Some 32400000" "timeOfDay ''18:00:00'' = Some 64800000"
  "timeOfDay ''01:00:00'' = Some 3600000" "timeOfDay ''05:00:00'' = Some 18000000"
  "timeOfDay ''22:00:00'' = Some 79200000" "timeOfDay ''02:00:00'' = Some 7200000"
  by (simp_all add: timeOfDay_def read_number_def skip_literal_def digit_of_def)

lemma scenario_node_sendable:
  "sendable scenario_node" "sendable other_node"
  "\<not> sendable typeless_node" "group_ok typeless_node"
  "\<not> sendable scalar_group_node" "\<not> group_ok scalar_group_node"
  "\<not> sendable typeless_scalar_node" "\<not> group_ok typeless_scalar_node"
  by (simp_all add: sendable_def group_ok_def scenario_node_def other_node_def typeless_node_def
      scalar_group_node_def typeless_scalar_node_def field_def)

text \<open>
  What \<open>isTimeBetween\<close> computes with the library's parser, when the clock reads \<open>t\<close> on
  lines 21 to 23: the two times of day are compared with the time elapsed since the start
  of the day in UTC plus eight hours, which is the time of day in Shanghai from 08:00 on
  and a day more than it before 08:00.
\<close>

lemma isTimeBetween_tz:
  assumes "timeOfDay s = Some a" and "timeOfDay e = Some b"
  shows "isTimeBetween (tz_parse t) t s e =
         (if b < a then a \<le> t mod 86400000 + 28800000 \<or> t mod 86400000 + 28800000 \<le> b
          else a \<le> t mod 86400000 + 28800000 \<and> t mod 86400000 + 28800000 \<le> b)"
  using assms by (auto simp: isTimeBetween_def tz_parse_def utc_day_start_def)







lemma field_set_field: "field (set_field k v obj) k' = (if k' = k then v else field obj k')"
  by (induction obj) (auto simp: field_def)

lemma rate_loop_fixed:
  assumes "\<And>n. clock e n = now"
  shows "snd (rate_loop e node ws st) =
         snd st @ [set_field ''rate'' (rate w) node. w \<leftarrow> ws,
                   isTimeBetween (tzParse e) now (start_time w) (end_time w)]"
proof (induction ws arbitrary: st)
  case Nil
  show ?case by simp
next
  case (Cons w ws)
  obtain t acc where st: "st = (t, acc)" by (cases st)
  show ?case unfolding st by (simp add: Cons.IH assms)
qed

lemma exist_loop_fixed:
  assumes "\<And>n. clock e n = now"
  shows "snd (exist_loop e c ns st) =
         snd st @ [set_field ''rate'' (rate w) n. n \<leftarrow> ns,
                   strict_eq (field n ''id'') (node_id c) \<and> strict_eq (field n ''type'') (node_type c),
                   w \<leftarrow> rate_config c,
                   isTimeBetween (tzParse e) now (start_time w) (end_time w)]"
proof (induction ns arbitrary: st)
  case Nil
  show ?case by simp
next
  case (Cons n ns)
  show ?case by (simp add: Cons.IH rate_loop_fixed [OF assms])
qed

lemma config_loop_fixed:
  assumes "\<And>n. clock e n = now"
  shows "snd (config_loop e ns cs st) =
         snd st @ [set_field ''rate'' (rate w) n. c \<leftarrow> cs, n \<leftarrow> ns,
                   strict_eq (field n ''id'') (node_id c) \<and> strict_eq (field n ''type'') (node_type c),
                   w \<leftarrow> rate_config c,
                   isTimeBetween (tzParse e) now (start_time w) (end_time w)]"
proof (induction cs arbitrary: st)
  case Nil
  show ?case by simp
next
  case (Cons c cs)
  show ?case by (simp add: Cons.IH exist_loop_fixed [OF assms])
qed




text \<open>
  C9. Reconciliation is deterministic: two runs with the same rules, the same remote nodes
  and the same fixed time produce the same list of records, whatever else differs between
  them (the replies of the panel, the clock readings made before).
\<close>

theorem reconcile_deterministic:
  assumes "clock e1 = (\<lambda>i. now)" and "clock e2 = (\<lambda>i. now)" and "tzParse e1 = tzParse e2"
  shows "reconcile e1 configNodes remoteNodes t1 = reconcile e2 configNodes remoteNodes t2"
proof -
  have "snd (config_loop e1 remoteNodes configNodes (t1, [])) =
        snd (config_loop e2 remoteNodes configNodes (t2, []))"
  proof -
    have c1: "clock e1 n = now" and c2: "clock e2 n = now" for n
      using assms(1,2) by simp_all
    show ?thesis
      unfolding config_loop_fixed [of e1 now, OF c1] config_loop_fixed [of e2 now, OF c2] assms(3)
      by simp
  qed
  then show ?thesis by (simp add: reconcile_def)
qed

theorem reconcile_deterministic_witness:
  "reconcile scenario_env [scenario_rule] [scenario_node, other_node] 2 =
   reconcile flaky_env [scenario_rule] [scenario_node, other_node] 7"
proof -
  have c1: "clock scenario_env = (\<lambda>i. at_20_00)" by (simp add: scenario_env_def)
  have c2: "clock flaky_env = (\<lambda>i. at_20_00)" by (simp add: flaky_env_def scenario_env_def)
  have p: "tzParse scenario_env = tzParse flaky_env" by (simp add: flaky_env_def)
  show ?thesis by (rule reconcile_deterministic [OF c1 c2 p])
qed

section \<open>The apply step\<close>

lemma field_encoded: "k \<noteq> ''group_id'' \<Longrightarrow> field (encoded r) k = field r k"
  by (simp add: encoded_def field_set_field split: jsval.splits)

lemma group_pairs_indexed: "group_pairs ids = indexed_pairs ids"
proof (rule nth_equalityI)
  show "length (group_pairs ids) = length (indexed_pairs ids)"
    by (simp add: group_pairs_def indexed_pairs_def)
next
  fix i
  assume "i < length (group_pairs ids)"
  then have "i < length ids" by (simp add: group_pairs_def)
  then show "group_pairs ids ! i = indexed_pairs ids ! i"
    by (simp add: group_pairs_def indexed_pairs_def nth_enumerate_eq)
qed

lemma postData_of_group_ok: "group_ok r \<Longrightarrow> postData_of r = Inr (encoded r)"
  by (auto simp: group_ok_def postData_of_def encoded_def group_pairs_indexed split: jsval.splits)

lemma log_line_sel [simp]:
  "sent (log_line e lv m s) = sent s"
  "authorization (log_line e lv m s) = authorization s"
  "authData (log_line e lv m s) = authData s"
  "console (log_line e lv m s) = console s @ [(clock e (ticks s), lv, m)]"
  "ticks (log_line e lv m s) = Suc (ticks s)"
  by (simp_all add: log_line_def)

lemma save_loop_step:
  assumes "sendable r"
  shows "save_loop e (r # rest) s =
         save_loop e rest
           (log_line e (fst (save_line e (length (sent s)) (encoded r)))
                       (snd (save_line e (length (sent s)) (encoded r)))
                       (s\<lparr>sent := sent s @ [Save (authorization s) (encoded r)]\<rparr>))"
  using assms
  by (simp add: sendable_def postData_of_group_ok field_encoded save_line_def split: option.splits)

lemma save_loop_append:
  assumes "\<forall>r \<in> set xs. sendable r"
  shows "save_loop e (xs @ rest) s = save_loop e rest (snd (save_loop e xs s))"
  using assms
proof (induction xs arbitrary: s)
  case Nil
  show ?case by simp
next
  case (Cons x xs)
  then have x: "sendable x" and xs: "\<forall>r \<in> set xs. sendable r" by simp_all
  show ?case
    using Cons.IH [OF xs] save_loop_step [OF x, of e] by simp
qed

lemma save_loop_sendable:
  assumes "\<forall>r \<in> set xs. sendable r"
  shows "fst (save_loop e xs s) = Inr ()
         \<and> sent (snd (save_loop e xs s)) = sent s @ map (\<lambda>r. Save (authorization s) (encoded r)) xs
         \<and> authorization (snd (save_loop e xs s)) = authorization s
         \<and> authData (snd (save_loop e xs s)) = authData s
         \<and> map snd (console (snd (save_loop e xs s))) =
             map snd (console s) @ map (\<lambda>(i, r). save_line e i (encoded r)) (enumerate (length (sent s)) xs)"
  using assms
proof (induction xs arbitrary: s)
  case Nil
  show ?case by simp
next
  case (Cons x xs)
  then have x: "sendable x" and xs: "\<forall>r \<in> set xs. sendable r" by simp_all
  show ?case
    unfolding save_loop_step [OF x]
    using Cons.IH [OF xs] by simp
qed

lemma save_loop_replies:
  assumes "sent s = sent s'" and "authorization s = authorization s'"
  shows "fst (save_loop e xs s) = fst (save_loop e' xs s')
         \<and> sent (snd (save_loop e xs s)) = sent (snd (save_loop e' xs s'))"
  using assms
proof (induction xs arbitrary: s s')
  case Nil
  then show ?case by simp
next
  case (Cons x xs)
  show ?case
  proof (cases "postData_of x")
    case (Inl err)
    then show ?thesis using Cons.prems by simp
  next
    case (Inr d)
    show ?thesis
    proof (cases "truthy (field d ''type'')")
      case False
      then show ?thesis using Inr Cons.prems by simp
    next
      case True
      define m where "m = (case save_reply e (length (sent s)) of
          None \<Rightarrow> (INFO, SaveOk (field d ''type'') (field d ''id'') (field d ''rate''))
        | Some err \<Rightarrow> (ERROR, SaveFailed (field d ''type'') (field d ''id'') err))"
      define m' where "m' = (case save_reply e' (length (sent s')) of
          None \<Rightarrow> (INFO, SaveOk (field d ''type'') (field d ''id'') (field d ''rate''))
        | Some err \<Rightarrow> (ERROR, SaveFailed (field d ''type'') (field d ''id'') err))"
      let ?t = "log_line e (fst m) (snd m) (s\<lparr>sent := sent s @ [Save (authorization s) d]\<rparr>)"
      let ?t' = "log_line e' (fst m') (snd m') (s'\<lparr>sent := sent s' @ [Save (authorization s') d]\<rparr>)"
      have l: "save_loop e (x # xs) s = save_loop e xs ?t"
        using Inr True by (simp add: m_def split: option.splits)
      have r: "save_loop e' (x # xs) s' = save_loop e' xs ?t'"
        using Inr True by (simp add: m'_def split: option.splits)
      have "sent ?t = sent ?t'" and "authorization ?t = authorization ?t'"
        using Cons.prems by simp_all
      from Cons.IH [OF this] show ?thesis unfolding l r .
    qed
  qed
qed

lemma batchChange_replies:
  "fst (batchChange e' batch s) = fst (batchChange e batch s)
   \<and> sent (snd (batchChange e' batch s)) = sent (snd (batchChange e batch s))"
  using save_loop_replies [of "s\<lparr>authorization := authData s\<rparr>" "s\<lparr>authorization := authData s\<rparr>" e' batch e]
  by (simp add: batchChange_def)

text \<open>
  C6. In \<open>batchChange\<close>, whatever the panel answers to the saves, a batch of records that all
  have a type returns normally: every record is posted, in order, and each one gets its own
  line on the console, an error line when its save failed. For any batch, the outcome of
  \<open>batchChange\<close> and the requests it sends are the same under any two panels \<open>e\<close> and \<open>e'\<close>:
  a failed save stops nothing and is never thrown further.
\<close>

theorem batchChange_save_failure_skipped:
  "(truthy (authData s) \<and> (\<forall>r \<in> set batch. sendable r) \<longrightarrow>
      fst (batchChange e batch s) = Inr ()
      \<and> sent (snd (batchChange e batch s)) = sent s @ map (\<lambda>r. Save (authData s) (encoded r)) batch
      \<and> map snd (console (snd (batchChange e batch s))) =
          map snd (console s)
          @ map (\<lambda>(i, r). save_line e i (encoded r)) (enumerate (length (sent s)) batch))
   \<and> fst (batchChange e' batch s) = fst (batchChange e batch s)
   \<and> sent (snd (batchChange e' batch s)) = sent (snd (batchChange e batch s))"
proof (intro conjI impI)
  assume a: "truthy (authData s) \<and> (\<forall>r \<in> set batch. sendable r)"
  then have b: "\<forall>r \<in> set batch. sendable r" by simp
  show "fst (batchChange e batch s) = Inr ()"
    and "sent (snd (batchChange e batch s)) = sent s @ map (\<lambda>r. Save (authData s) (encoded r)) batch"
    and "map snd (console (snd (batchChange e batch s))) =
          map snd (console s)
          @ map (\<lambda>(i, r). save_line e i (encoded r)) (enumerate (length (sent s)) batch)"
    using a save_loop_sendable [OF b, of e "s\<lparr>authorization := authData s\<rparr>"]
    by (simp_all add: batchChange_def)
next
  show "fst (batchChange e' batch s) = fst (batchChange e batch s)"
    and "sent (snd (batchChange e' batch s)) = sent (snd (batchChange e batch s))"
    using batchChange_replies [of e' batch s e] by simp_all
qed

theorem batchChange_save_failure_skipped_witness:
  "fst (batchChange flaky_env [scenario_node, other_node] logged_in) = Inr ()
   \<and> sent (snd (batchChange flaky_env [scenario_node, other_node] logged_in)) =
       [Save (JStr ''token'')
          [(''id'', JNum 1), (''type'', JStr ''vmess''), (''name'', JStr ''hk-01''),
           (''rate'', JNum (1 / 2)),
           (''group_id'', JArr [JArr [JStr ''group_id[0]'', JNum 3], JArr [JStr ''group_id[1]'', JNum 5]]),
           (''port'', JNum 443)],
        Save (JStr ''token'') [(''id'', JNum 1), (''type'', JStr ''trojan''), (''rate'', JNum 1)]]
   \<and> map snd (console (snd (batchChange flaky_env [scenario_node, other_node] logged_in))) =
       [(ERROR, SaveFailed (JStr ''vmess'') (JNum 1) (AxiosError ''timeout'')),
        (INFO, SaveOk (JStr ''trojan'') (JNum 1) (JNum 1))]"
proof -
  have a: "truthy (authData logged_in)" by (simp add: logged_in_def)
  have b: "\<forall>r \<in> set [scenario_node, other_node]. sendable r"
    by (simp add: scenario_node_sendable)
  show ?thesis
    using a b batchChange_save_failure_skipped
            [where s = logged_in and batch = "[scenario_node, other_node]" and e = flaky_env
               and e' = scenario_env]
    by (simp add: logged_in_def init_state_def flaky_env_def save_line_def encoded_def
        indexed_pairs_def show_nat.simps scenario_node_def other_node_def field_def)
qed

text \<open>
  C1 as the specification states it fails: with a record without a type first in the batch,
  \<open>batchChange\<close> throws and the well-formed record after it is not posted.
\<close>

theorem batchChange_missing_type_counterexample:
  "fst (batchChange scenario_env [typeless_node, other_node] logged_in) = Inl (MissingType (JNum 2))
   \<and> sent (snd (batchChange scenario_env [typeless_node, other_node] logged_in)) = []"
  by (simp add: batchChange_def logged_in_def init_state_def postData_of_def typeless_node_def field_def)

lemma takeWhile_stops: "\<not> P x \<Longrightarrow> takeWhile P (xs @ x # ys) = takeWhile P xs"
  by (induction xs) auto

lemma postData_of_not_group_ok: "\<not> group_ok r \<Longrightarrow> postData_of r = Inl TypeError"
  by (auto simp: group_ok_def postData_of_def split: jsval.splits)

lemma save_loop_unsendable:
  assumes "\<not> sendable bad"
  shows "save_loop e (bad # rest) s =
         (Inl (if group_ok bad then MissingType (field bad ''id'') else TypeError), s)"
  using assms
  by (simp add: sendable_def postData_of_group_ok postData_of_not_group_ok field_encoded)

lemma save_loop_first_unsendable:
  "fst (save_loop e batch s) =
     (case dropWhile sendable batch of
        [] \<Rightarrow> Inr ()
      | bad # rest \<Rightarrow> Inl (if group_ok bad then MissingType (field bad ''id'') else TypeError))
   \<and> sent (snd (save_loop e batch s)) =
       sent s @ map (\<lambda>r. Save (authorization s) (encoded r)) (takeWhile sendable batch)"
proof -
  let ?ok = "takeWhile sendable batch" and ?rest = "dropWhile sendable batch"
  have ok: "\<forall>r \<in> set ?ok. sendable r" by (auto dest: set_takeWhileD)
  have "save_loop e (?ok @ ?rest) s = save_loop e ?rest (snd (save_loop e ?ok s))"
    by (rule save_loop_append [OF ok])
  then have split: "save_loop e batch s = save_loop e ?rest (snd (save_loop e ?ok s))" by simp
  show ?thesis
  proof (cases ?rest)
    case Nil
    show ?thesis
      unfolding split Nil using save_loop_sendable [OF ok, of e s] by simp
  next
    case (Cons bad rest)
    have "\<not> sendable (hd ?rest)" by (rule hd_dropWhile) (simp add: Cons)
    then have nb: "\<not> sendable bad" by (simp add: Cons)
    show ?thesis
      unfolding split Cons save_loop_unsendable [OF nb]
      using save_loop_sendable [OF ok, of e s] by simp
  qed
qed

text \<open>
  C1, as amended. \<open>batchChange\<close> posts the records of the batch in order up to the first
  record that it cannot send, and throws there: at a record without a non-empty type the
  error names the record's id; at a record whose \<^verbatim>\<open>group_id\<close> is truthy and not an array it
  is a TypeError, thrown before the type is looked at. Neither that record nor any record
  after it is posted. So when the batch has a record without a type, \<open>batchChange\<close> ends
  with an error and posts nothing but records that come before that record.
\<close>

theorem batchChange_missing_type_stops:
  "truthy (authData s) \<longrightarrow>
     sent (snd (batchChange e batch s)) =
       sent s @ map (\<lambda>r. Save (authData s) (encoded r)) (takeWhile sendable batch)
     \<and> fst (batchChange e batch s) =
         (case dropWhile sendable batch of
            [] \<Rightarrow> Inr ()
          | bad # rest \<Rightarrow> Inl (if group_ok bad then MissingType (field bad ''id'') else TypeError))
     \<and> (batch = before @ typeless # after \<and> \<not> truthy (field typeless ''type'') \<longrightarrow>
          (\<exists>err. fst (batchChange e batch s) = Inl err)
          \<and> sent (snd (batchChange e batch s)) =
              sent s @ map (\<lambda>r. Save (authData s) (encoded r)) (takeWhile sendable before))"
proof (intro impI)
  assume a: "truthy (authData s)"
  let ?s = "s\<lparr>authorization := authData s\<rparr>"
  have b: "batchChange e batch s = save_loop e batch ?s" using a by (simp add: batchChange_def)
  note g = save_loop_first_unsendable [of e batch ?s]
  have sent: "sent (snd (batchChange e batch s)) =
       sent s @ map (\<lambda>r. Save (authData s) (encoded r)) (takeWhile sendable batch)"
    using g by (simp add: b)
  have res: "fst (batchChange e batch s) =
         (case dropWhile sendable batch of
            [] \<Rightarrow> Inr ()
          | bad # rest \<Rightarrow> Inl (if group_ok bad then MissingType (field bad ''id'') else TypeError))"
    using g by (simp add: b)
  have "(\<exists>err. fst (batchChange e batch s) = Inl err)
          \<and> sent (snd (batchChange e batch s)) =
              sent s @ map (\<lambda>r. Save (authData s) (encoded r)) (takeWhile sendable before)"
    if c: "batch = before @ typeless # after \<and> \<not> truthy (field typeless ''type'')"
  proof -
    from c have n: "\<not> sendable typeless" by (simp add: sendable_def)
    have t: "takeWhile sendable batch = takeWhile sendable before"
      using c takeWhile_stops [of sendable typeless before after] n by simp
    have "typeless \<in> set batch" using c by simp
    with n have "dropWhile sendable batch \<noteq> []" by (auto simp: dropWhile_eq_Nil_conv)
    then have "\<exists>err. fst (batchChange e batch s) = Inl err"
      unfolding res by (cases "dropWhile sendable batch") simp_all
    then show ?thesis using sent t by simp
  qed
  with sent res show "sent (snd (batchChange e batch s)) =
       sent s @ map (\<lambda>r. Save (authData s) (encoded r)) (takeWhile sendable batch)
     \<and> fst (batchChange e batch s) =
         (case dropWhile sendable batch of
            [] \<Rightarrow> Inr ()
          | bad # rest \<Rightarrow> Inl (if group_ok bad then MissingType (field bad ''id'') else TypeError))
     \<and> (batch = before @ typeless # after \<and> \<not> truthy (field typeless ''type'') \<longrightarrow>
          (\<exists>err. fst (batchChange e batch s) = Inl err)
          \<and> sent (snd (batchChange e batch s)) =
              sent s @ map (\<lambda>r. Save (authData s) (encoded r)) (takeWhile sendable before))"
    by blast
qed

theorem batchChange_missing_type_stops_witness:
  "fst (batchChange scenario_env [other_node, typeless_node, scenario_node] logged_in) =
     Inl (MissingType (JNum 2))
   \<and> sent (snd (batchChange scenario_env [other_node, typeless_node, scenario_node] logged_in)) =
       [Save (JStr ''token'') [(''id'', JNum 1), (''type'', JStr ''trojan''), (''rate'', JNum 1)]]
   \<and> fst (batchChange scenario_env [other_node, typeless_scalar_node, scenario_node] logged_in) =
       Inl TypeError
   \<and> sent (snd (batchChange scenario_env [other_node, typeless_scalar_node, scenario_node] logged_in)) =
       [Save (JStr ''token'') [(''id'', JNum 1), (''type'', JStr ''trojan''), (''rate'', JNum 1)]]
   \<and> fst (batchChange scenario_env [scalar_group_node, typeless_node] logged_in) = Inl TypeError
   \<and> sent (snd (batchChange scenario_env [scalar_group_node, typeless_node] logged_in)) = []"
proof -
  have a: "truthy (authData logged_in)" by (simp add: logged_in_def)
  have t1: "[other_node, typeless_node, scenario_node] = [other_node] @ typeless_node # [scenario_node]
            \<and> \<not> truthy (field typeless_node ''type'')"
    by (simp add: typeless_node_def field_def)
  have t2: "[other_node, typeless_scalar_node, scenario_node] =
              [other_node] @ typeless_scalar_node # [scenario_node]
            \<and> \<not> truthy (field typeless_scalar_node ''type'')"
    by (simp add: typeless_scalar_node_def field_def)
  have t3: "[scalar_group_node, typeless_node] = [scalar_group_node] @ typeless_node # []
            \<and> \<not> truthy (field typeless_node ''type'')"
    by (simp add: typeless_node_def field_def)
  note w1 = batchChange_missing_type_stops
      [where s = logged_in and e = scenario_env and batch = "[other_node, typeless_node, scenario_node]"
         and before = "[other_node]" and typeless = typeless_node and after = "[scenario_node]"]
  note w2 = batchChange_missing_type_stops
      [where s = logged_in and e = scenario_env
         and batch = "[other_node, typeless_scalar_node, scenario_node]"
         and before = "[other_node]" and typeless = typeless_scalar_node and after = "[scenario_node]"]
  note w3 = batchChange_missing_type_stops
      [where s = logged_in and e = scenario_env and batch = "[scalar_group_node, typeless_node]"
         and before = "[scalar_group_node]" and typeless = typeless_node and after = "[]"]
  have f1: "fst (batchChange scenario_env [other_node, typeless_node, scenario_node] logged_in) =
              Inl (MissingType (field typeless_node ''id''))
            \<and> sent (snd (batchChange scenario_env [other_node, typeless_node, scenario_node] logged_in)) =
              sent logged_in @ map (\<lambda>r. Save (authData logged_in) (encoded r)) [other_node]"
    using a t1 w1 by (simp add: scenario_node_sendable)
  have f2: "fst (batchChange scenario_env [other_node, typeless_scalar_node, scenario_node] logged_in) =
              Inl TypeError
            \<and> sent (snd (batchChange scenario_env [other_node, typeless_scalar_node, scenario_node] logged_in)) =
              sent logged_in @ map (\<lambda>r. Save (authData logged_in) (encoded r)) [other_node]"
    using a t2 w2 by (simp add: scenario_node_sendable)
  have f3: "fst (batchChange scenario_env [scalar_group_node, typeless_node] logged_in) = Inl TypeError
            \<and> sent (snd (batchChange scenario_env [scalar_group_node, typeless_node] logged_in)) =
              sent logged_in"
    using a t3 w3 by (simp add: scenario_node_sendable)
  have v: "field typeless_node ''id'' = JNum 2" "sent logged_in = []"
    "map (\<lambda>r. Save (authData logged_in) (encoded r)) [other_node] =
       [Save (JStr ''token'') [(''id'', JNum 1), (''type'', JStr ''trojan''), (''rate'', JNum 1)]]"
    by (simp_all add: logged_in_def init_state_def encoded_def other_node_def typeless_node_def field_def)
  have r1: "fst (batchChange scenario_env [other_node, typeless_node, scenario_node] logged_in) =
              Inl (MissingType (JNum 2))
            \<and> sent (snd (batchChange scenario_env [other_node, typeless_node, scenario_node] logged_in)) =
              [Save (JStr ''token'') [(''id'', JNum 1), (''type'', JStr ''trojan''), (''rate'', JNum 1)]]"
    using f1 unfolding v by simp
  have r2: "fst (batchChange scenario_env [other_node, typeless_scalar_node, scenario_node] logged_in) =
              Inl TypeError
            \<and> sent (snd (batchChange scenario_env [other_node, typeless_scalar_node, scenario_node] logged_in)) =
              [Save (JStr ''token'') [(''id'', JNum 1), (''type'', JStr ''trojan''), (''rate'', JNum 1)]]"
    using f2 unfolding v by simp
  have r3: "fst (batchChange scenario_env [scalar_group_node, typeless_node] logged_in) = Inl TypeError
            \<and> sent (snd (batchChange scenario_env [scalar_group_node, typeless_node] logged_in)) = []"
    using f3 unfolding v by simp
  from r1 r2 r3 show ?thesis by simp
qed

lemma main_requests_after_login:
  "\<not> (\<exists>token. login_outcome e = Inr token \<and> truthy token) \<Longrightarrow> list_all is_login (sent (snd (main e)))"
  by (auto simp: main_def loadConfig_def changeRate_def changeRate_try_def login_def getNodes_def
      Let_def init_state_def split: sum.splits option.splits prod.splits if_splits)

text \<open>
  C10. While no authorization data is stored, \<open>getNodes\<close> and \<open>batchChange\<close> throw the
  unauthorized error and leave the state as it was: no request is sent and nothing is logged.
  So a run whose login did not store a token sends no request other than the login.
\<close>

theorem unauthorized_before_any_request:
  "(\<not> truthy (authData s) \<longrightarrow>
      getNodes e s = (Inl Unauthorized, s) \<and> batchChange e batch s = (Inl Unauthorized, s))
   \<and> (\<not> (\<exists>token. login_outcome e = Inr token \<and> truthy token) \<longrightarrow>
        list_all is_login (sent (snd (main e))))"
  using main_requests_after_login [of e] by (simp add: getNodes_def batchChange_def)

theorem unauthorized_before_any_request_witness:
  "getNodes scenario_env init_state = (Inl Unauthorized, init_state)
   \<and> batchChange scenario_env [scenario_node] init_state = (Inl Unauthorized, init_state)
   \<and> list_all is_login (sent (snd (main login_down_env)))"
proof -
  have a: "\<not> truthy (authData init_state)" by (simp add: init_state_def)
  have b: "\<not> (\<exists>token. login_outcome login_down_env = Inr token \<and> truthy token)"
    by (simp add: login_outcome_def login_down_env_def)
  from a unauthorized_before_any_request [of init_state scenario_env "[scenario_node]"]
  have "getNodes scenario_env init_state = (Inl Unauthorized, init_state)
        \<and> batchChange scenario_env [scenario_node] init_state = (Inl Unauthorized, init_state)"
    by blast
  moreover from b unauthorized_before_any_request [where e = login_down_env]
  have "list_all is_login (sent (snd (main login_down_env)))" by blast
  ultimately show ?thesis by simp
qed

text \<open>
  C8. \<open>batchChange\<close> posts, for each record, the record with a \<^verbatim>\<open>group_id\<close> collection
  replaced by the list of pairs of the indexed key \<^verbatim>\<open>group_id[i]\<close> and the \<open>i\<close>-th member; the
  other fields are unchanged, and a record without a collection is posted as it is.
\<close>

theorem group_id_indexed_pairs:
  assumes "truthy (authData s)" and "\<forall>r \<in> set batch. sendable r"
  shows "sent (snd (batchChange e batch s)) = sent s @ map (\<lambda>r. Save (authData s) (encoded r)) batch
         \<and> (\<forall>r \<in> set batch. \<forall>gs. field r ''group_id'' = JArr gs \<longrightarrow>
               field (encoded r) ''group_id'' = JArr (indexed_pairs gs))
         \<and> (\<forall>r \<in> set batch. \<forall>k. k \<noteq> ''group_id'' \<longrightarrow> field (encoded r) k = field r k)
         \<and> (\<forall>r \<in> set batch. (\<forall>gs. field r ''group_id'' \<noteq> JArr gs) \<longrightarrow> encoded r = r)"
proof -
  have "sent (snd (batchChange e batch s)) = sent s @ map (\<lambda>r. Save (authData s) (encoded r)) batch"
    using assms(1) save_loop_sendable [OF assms(2), of e "s\<lparr>authorization := authData s\<rparr>"]
    by (simp add: batchChange_def)
  moreover have "field (encoded r) ''group_id'' = JArr (indexed_pairs gs)"
    if "field r ''group_id'' = JArr gs" for r gs
    using that by (simp add: encoded_def field_set_field)
  moreover have "encoded r = r" if "\<forall>gs. field r ''group_id'' \<noteq> JArr gs" for r
    using that by (simp add: encoded_def split: jsval.splits)
  ultimately show ?thesis by (simp add: field_encoded)
qed

theorem group_id_indexed_pairs_witness:
  "sent (snd (batchChange scenario_env [scenario_node, other_node] logged_in)) =
       [Save (JStr ''token'')
          [(''id'', JNum 1), (''type'', JStr ''vmess''), (''name'', JStr ''hk-01''),
           (''rate'', JNum (1 / 2)),
           (''group_id'', JArr [JArr [JStr ''group_id[0]'', JNum 3], JArr [JStr ''group_id[1]'', JNum 5]]),
           (''port'', JNum 443)],
        Save (JStr ''token'') [(''id'', JNum 1), (''type'', JStr ''trojan''), (''rate'', JNum 1)]]"
proof -
  have a: "truthy (authData logged_in)" by (simp add: logged_in_def)
  have b: "\<forall>r \<in> set [scenario_node, other_node]. sendable r"
    by (simp add: scenario_node_sendable)
  have "sent (snd (batchChange scenario_env [scenario_node, other_node] logged_in)) =
        sent logged_in @ map (\<lambda>r. Save (authData logged_in) (encoded r)) [scenario_node, other_node]"
    using group_id_indexed_pairs [OF a b, of scenario_env] by blast
  then show ?thesis
    by (simp add: logged_in_def init_state_def encoded_def
        indexed_pairs_def show_nat.simps scenario_node_def other_node_def field_def)
qed

section \<open>Each record is a node with its rate replaced\<close>








section \<open>Fatal errors\<close>

lemma main_fulfilled: "fst (main e) = Inr ()"
  by (simp add: main_def changeRate_def split: prod.splits sum.splits)

text \<open>
  C7 as the specification states it fails: when the panel does not answer the login, the
  error is caught in \<open>changeRate\<close>, it does not reach the top level, and the process ends
  with exit status 0.
\<close>

theorem fatal_errors_counterexample:
  "exit_code (main login_down_env) = 0
   \<and> map snd (console (snd (main login_down_env))) =
       [(ERROR, LoginFailed (AxiosError ''timeout'')), (ERROR, ChangeRateFailed (AxiosError ''timeout''))]"
  by (simp add: exit_code_def main_def loadConfig_def requiredKeys_def config_key_def changeRate_def
      changeRate_try_def login_def login_outcome_def login_down_env_def scenario_env_def
      scenario_config_def init_state_def)

text \<open>
  C7, as amended. Every fatal error is caught and logged, and the run then ends normally,
  with exit status 0: a failure to load the configuration is caught at the top level before
  any request; a failed login is caught in \<open>changeRate\<close> after the login request alone; a
  failed fetch of the node list is caught in \<open>changeRate\<close> with no save request sent.
\<close>

theorem fatal_errors_caught:
  "fst (main e) = Inr () \<and> exit_code (main e) = 0
   \<and> (fst (loadConfig e init_state) = Inl err \<longrightarrow>
        main e = (Inr (), log_line e ERROR (ScriptFailed err) (snd (loadConfig e init_state)))
        \<and> sent (snd (main e)) = [])
   \<and> (fst (login e cfg s) = Inl err \<longrightarrow>
        changeRate e cfg s = (Inr (), log_line e ERROR (ChangeRateFailed err) (snd (login e cfg s)))
        \<and> sent (snd (changeRate e cfg s)) = sent s @ [Login (admin_account cfg) (admin_password cfg)])
   \<and> (fst (login e cfg s) = Inr () \<and> fst (getNodes e (snd (login e cfg s))) = Inl err \<longrightarrow>
        changeRate e cfg s =
          (Inr (), log_line e ERROR (ChangeRateFailed err) (snd (getNodes e (snd (login e cfg s)))))
        \<and> filter is_save (sent (snd (changeRate e cfg s))) = filter is_save (sent s))"
proof (intro conjI impI)
  show "fst (main e) = Inr ()" by (rule main_fulfilled)
  show "exit_code (main e) = 0" by (simp add: exit_code_def main_fulfilled)
next
  assume a: "fst (loadConfig e init_state) = Inl err"
  then show "main e = (Inr (), log_line e ERROR (ScriptFailed err) (snd (loadConfig e init_state)))"
    by (cases "loadConfig e init_state") (simp add: main_def)
  from a show "sent (snd (main e)) = []"
    by (cases "loadConfig e init_state")
       (auto simp: main_def loadConfig_def init_state_def split: sum.splits option.splits)
next
  assume a: "fst (login e cfg s) = Inl err"
  then show "changeRate e cfg s = (Inr (), log_line e ERROR (ChangeRateFailed err) (snd (login e cfg s)))"
    by (cases "login e cfg s") (simp add: changeRate_def changeRate_try_def)
  from a show "sent (snd (changeRate e cfg s)) = sent s @ [Login (admin_account cfg) (admin_password cfg)]"
    by (cases "login e cfg s")
       (auto simp: changeRate_def changeRate_try_def login_def Let_def split: sum.splits)
next
  assume a: "fst (login e cfg s) = Inr () \<and> fst (getNodes e (snd (login e cfg s))) = Inl err"
  then show "changeRate e cfg s =
          (Inr (), log_line e ERROR (ChangeRateFailed err) (snd (getNodes e (snd (login e cfg s)))))"
    by (cases "login e cfg s"; cases "getNodes e (snd (login e cfg s))")
       (simp add: changeRate_def changeRate_try_def)
  from a show "filter is_save (sent (snd (changeRate e cfg s))) = filter is_save (sent s)"
    by (cases "login e cfg s"; cases "getNodes e (snd (login e cfg s))")
       (auto simp: changeRate_def changeRate_try_def login_def getNodes_def Let_def split: sum.splits if_splits)
qed

theorem fatal_errors_caught_witness:
  "exit_code (main no_config_env) = 0
   \<and> sent (snd (main no_config_env)) = []
   \<and> sent (snd (changeRate login_down_env scenario_config init_state)) =
       [Login (JStr ''root@example.com'') (JStr ''secret'')]
   \<and> filter is_save (sent (snd (changeRate nodes_down_env scenario_config init_state))) = []"
proof -
  have a: "fst (loadConfig no_config_env init_state) = Inl (IOError ''ENOENT'')"
    by (simp add: loadConfig_def no_config_env_def)
  have b: "fst (login login_down_env scenario_config init_state) = Inl (AxiosError ''timeout'')"
    by (simp add: login_def login_outcome_def login_down_env_def)
  have c: "fst (login nodes_down_env scenario_config init_state) = Inr ()
           \<and> fst (getNodes nodes_down_env (snd (login nodes_down_env scenario_config init_state))) =
               Inl (AxiosError ''timeout'')"
    by (simp add: login_def login_outcome_def login_check_def getNodes_def nodes_down_env_def
        scenario_env_def field_def)
  from a fatal_errors_caught [of no_config_env "IOError ''ENOENT''"]
  have 1: "exit_code (main no_config_env) = 0 \<and> sent (snd (main no_config_env)) = []"
    by blast
  from b fatal_errors_caught [of login_down_env "AxiosError ''timeout''" scenario_config init_state]
  have 2: "sent (snd (changeRate login_down_env scenario_config init_state)) =
           sent init_state @ [Login (admin_account scenario_config) (admin_password scenario_config)]"
    by blast
  from c fatal_errors_caught [of nodes_down_env "AxiosError ''timeout''" scenario_config init_state]
  have 3: "filter is_save (sent (snd (changeRate nodes_down_env scenario_config init_state))) =
           filter is_save (sent init_state)"
    by blast
  from 1 2 3 show ?thesis by (simp add: init_state_def scenario_config_def)
qed

section \<open>The time window test\<close>

text \<open>
  C2. For a window whose start is not after its end, \<open>isTimeBetween\<close> is to hold exactly
  when the time of day lies between the two, both ends included. The program does not do
  that before 08:00 in Shanghai: at 03:00:00 the window from 01:00:00 to 05:00:00 is
  not active, because the two ends are parsed on the day before.
\<close>

theorem isTimeBetween_normal_fails:
  "timeOfDay ''01:00:00'' = Some 3600000 \<and> timeOfDay ''05:00:00'' = Some 18000000
   \<and> shanghai_time at_03_00 = 10800000
   \<and> \<not> isTimeBetween (tz_parse at_03_00) at_03_00 ''01:00:00'' ''05:00:00''"
  by (simp add: timeOfDay_examples isTimeBetween_tz [OF timeOfDay_examples(3,4)]
      shanghai_time_def at_03_00_def)

text \<open>
  C3. For a window whose start is after its end (it crosses midnight), \<open>isTimeBetween\<close> is
  to hold exactly when the time of day is at or after the start or at or before the end.
  The program does not do that before 08:00 in Shanghai: at 05:00:00 the window from
  22:00:00 to 02:00:00 is active, because its start is parsed on the day before.
\<close>

theorem isTimeBetween_wrap_fails:
  "timeOfDay ''22:00:00'' = Some 79200000 \<and> timeOfDay ''02:00:00'' = Some 7200000
   \<and> shanghai_time at_05_00 = 18000000
   \<and> isTimeBetween (tz_parse at_05_00) at_05_00 ''22:00:00'' ''02:00:00''"
  by (simp add: timeOfDay_examples isTimeBetween_tz [OF timeOfDay_examples(5,6)]
      shanghai_time_def at_05_00_def)

end
